theory Spec2Isabelle
  imports Main
begin

section \<open>JavaScript values\<close>

text \<open>
  A JavaScript string is a sequence of UTF-16 code units; each unit is modelled as a
  natural number. \<open>str\<close> turns an ASCII literal into such a sequence.
\<close>

type_synonym js_string = "nat list"

definition str :: "string \<Rightarrow> js_string" where
  "str s = map of_char s"

text \<open>An exception value: the \<open>name\<close> and \<open>message\<close> properties of the thrown object.\<close>

datatype js_error = JsError (err_name: js_string) (err_message: js_string)

text \<open>Template-literal conversion of a non-negative integer (\<open>`${response.status}`\<close>).\<close>

fun string_of_nat :: "nat \<Rightarrow> js_string" where
  "string_of_nat n =
     (if n < 10 then [48 + n] else string_of_nat (n div 10) @ [48 + n mod 10])"

declare string_of_nat.simps [simp del]


section \<open>The lookup response\<close>

text \<open>
  The JSON envelope \<open>{success, order?, error?}\<close> of the lookup endpoint. An absent
  property is \<open>None\<close> (reads as \<open>undefined\<close>).
\<close>

record order_record =
  orderId :: "js_string option"
  status :: "js_string option"
  product :: "js_string option"
  trackingNumber :: "js_string option"
  createdDate :: "js_string option"
  updatedDate :: "js_string option"

record envelope =
  success :: bool
  error :: "js_string option"
  order :: "order_record option"

text \<open>
  A fetch \<open>Response\<close>: the status line, and what \<open>response.json()\<close> settles to
  (a rejection when the body is not JSON).
\<close>

record response =
  resp_status :: nat
  resp_statusText :: js_string
  resp_json :: "js_error + envelope"

definition ok :: "response \<Rightarrow> bool" where
  "ok r = (200 \<le> resp_status r \<and> resp_status r \<le> 299)"


section \<open>api\_helpers.js: timeout and retry\<close>

text \<open>
  The network is an oracle: the \<open>n\<close>-th call of \<open>fetch\<close> (counted from 0) on a
  URL settles after \<open>latency\<close> milliseconds, either rejecting or fulfilling.
\<close>

record fetch_outcome =
  latency :: nat
  settles :: "js_error + response"

type_synonym transport = "nat \<Rightarrow> js_string \<Rightarrow> fetch_outcome"

text \<open>
  What the code does to the outside world, in order: \<open>Fetch url t\<close> is a request
  issued by \<open>fetchWithTimeout(url, t)\<close>, \<open>FetchPlain url\<close> a bare \<open>fetch(url)\<close>,
  \<open>Sleep ms\<close> a backoff wait, the last two the calls of the form-error helpers.
\<close>

datatype field = OrderIdInput | EmailInput

datatype event =
    Fetch js_string nat
  | FetchPlain js_string
  | Sleep nat
  | ClearAllFormErrors
  | ShowFormError js_string field

text \<open>
  \<open>fetch(url, {signal})\<close> under the abort timer of \<open>fetchWithTimeout\<close>: when the
  timer fires before the call settles the call rejects with an \<open>AbortError\<close>.
\<close>

definition fetch_with_signal :: "transport \<Rightarrow> nat \<Rightarrow> js_string \<Rightarrow> nat \<Rightarrow> js_error + response" where
  "fetch_with_signal net n url timeout =
     (if latency (net n url) < timeout then settles (net n url)
      else Inl (JsError (str ''AbortError'') (str ''The operation was aborted.'')))"

definition fetchWithTimeout :: "transport \<Rightarrow> nat \<Rightarrow> js_string \<Rightarrow> nat \<Rightarrow> js_error + response" where
  "fetchWithTimeout net n url timeout =
     (case fetch_with_signal net n url timeout of
        Inr response \<Rightarrow> Inr response
      | Inl err \<Rightarrow>
          if err_name err = str ''AbortError''
          then Inl (JsError (str ''Error'') (str ''Request timeout - please try again''))
          else Inl err)"

text \<open>The body of the \<open>try\<close> block of one loop iteration of \<open>fetchWithRetry\<close>.\<close>

datatype try_result = Returned response | Thrown js_error | FellThrough

definition http_error :: "response \<Rightarrow> js_error" where
  "http_error response =
     JsError (str ''Error'')
       (str ''HTTP '' @ string_of_nat (resp_status response) @ str '': '' @ resp_statusText response)"

definition retry_try :: "transport \<Rightarrow> js_string \<Rightarrow> int \<Rightarrow> nat \<Rightarrow> try_result" where
  "retry_try net url maxRetries i =
     (case fetchWithTimeout net i url 10000 of
        Inl err \<Rightarrow> Thrown err
      | Inr response \<Rightarrow>
          if ok response then Returned response
          else if int i = maxRetries - 1 then Thrown (http_error response)
          else FellThrough)"

text \<open>
  The \<open>for\<close> loop of \<open>fetchWithRetry\<close>, from iteration \<open>i\<close> on. The result is the
  settlement of the promise (\<open>Inr None\<close>: resolved with \<open>undefined\<close>) and the events
  issued. \<open>maxRetries\<close> is an integer; the \<open>options\<close> argument is carried as the
  source carries it.
\<close>

function fetchWithRetry_loop ::
  "transport \<Rightarrow> js_string \<Rightarrow> 'o \<Rightarrow> int \<Rightarrow> nat \<Rightarrow> (js_error + response option) \<times> event list" where
  "fetchWithRetry_loop net url options maxRetries i =
     (if int i < maxRetries then
        (case retry_try net url maxRetries i of
           Returned response \<Rightarrow> (Inr (Some response), [Fetch url 10000])
         | Thrown err \<Rightarrow>
             if int i = maxRetries - 1 then (Inl err, [Fetch url 10000])
             else (case fetchWithRetry_loop net url options maxRetries (Suc i) of
                     (r, es) \<Rightarrow> (r, Fetch url 10000 # Sleep (2 ^ i * 1000) # es))
         | FellThrough \<Rightarrow>
             (case fetchWithRetry_loop net url options maxRetries (Suc i) of
                (r, es) \<Rightarrow> (r, Fetch url 10000 # Sleep (2 ^ i * 1000) # es)))
      else (Inr None, []))"
  by pat_completeness auto
termination
  by (relation "measure (\<lambda>(net, url, options, maxRetries, i). nat (maxRetries - int i))") auto

declare fetchWithRetry_loop.simps [simp del]

definition fetchWithRetry ::
  "transport \<Rightarrow> js_string \<Rightarrow> 'o \<Rightarrow> int \<Rightarrow> (js_error + response option) \<times> event list" where
  "fetchWithRetry net url options maxRetries = fetchWithRetry_loop net url options maxRetries 0"



definition attempt_succeeds :: "fetch_outcome \<Rightarrow> response \<Rightarrow> bool" where
  "attempt_succeeds out r = (latency out < 10000 \<and> settles out = Inr r \<and> ok r)"

definition attempt_fails :: "fetch_outcome \<Rightarrow> bool" where
  "attempt_fails out =
     (10000 \<le> latency out \<or>
      (case settles out of Inl e \<Rightarrow> True | Inr r \<Rightarrow> \<not> ok r))"



definition backoff_trace :: "js_string \<Rightarrow> nat \<Rightarrow> nat \<Rightarrow> event list" where
  "backoff_trace url i k =
     concat (map (\<lambda>j. [Fetch url 10000, Sleep (2 ^ j * 1000)]) [i..<k]) @ [Fetch url 10000]"

fun is_Fetch :: "event \<Rightarrow> bool" where
  "is_Fetch (Fetch u t) = True"
| "is_Fetch (FetchPlain u) = True"
| "is_Fetch e = False"


definition attempts :: "event list \<Rightarrow> nat" where
  "attempts es = length (filter is_Fetch es)"


section \<open>order\_tracker.js: the status registry\<close>

record status_descriptor =
  emoji :: js_string
  message :: js_string
  step :: js_string
  description :: js_string

definition STATUS_CONFIG :: "(js_string \<times> status_descriptor) list" where
  "STATUS_CONFIG =
    [(str ''Order Received'',
        \<lparr>emoji = [0xD83D, 0xDC4B], message = str ''We got your order!'', step = str ''received'',
         description = str ''Your order has been received and logged into our system.''\<rparr>),
     (str ''In Queue'',
        \<lparr>emoji = [0xD83D, 0xDCCB], message = str ''Spot reserved in print queue'', step = str ''queue'',
         description = str ''Your order is in the production queue.''\<rparr>),
     (str ''Printing'',
        \<lparr>emoji = [0xD83D, 0xDDA8, 0xFE0F], message = str ''Your print is being created'',
         step = str ''printing'', description = str ''Your item is currently being 3D printed.''\<rparr>),
     (str ''Post-Processing'',
        \<lparr>emoji = [0xD83D, 0xDD27], message = str ''Cleaning and finishing'', step = str ''processing'',
         description = str ''Removing supports and cleaning up your print.''\<rparr>),
     (str ''Quality Control'',
        \<lparr>emoji = [0xD83D, 0xDD0D], message = str ''Final inspection'', step = str ''quality'',
         description = str ''Ensuring your print meets our quality standards.''\<rparr>),
     (str ''Packaging'',
        \<lparr>emoji = [0xD83D, 0xDCE6], message = str ''Carefully boxing your order'',
         step = str ''packaging'', description = str ''Safely packaging your order for shipment.''\<rparr>),
     (str ''Shipped'',
        \<lparr>emoji = [0x2708, 0xFE0F], message = str ''On its way to you!'', step = str ''shipped'',
         description = str ''Your order has been handed to the carrier.''\<rparr>),
     (str ''Delivered'',
        \<lparr>emoji = [0xD83C, 0xDF89], message = str ''Enjoy your print!'', step = str ''delivered'',
         description = str ''Your order has been delivered. Thanks for your order!''\<rparr>)]"

definition DEFAULT_STATUS :: status_descriptor where
  "DEFAULT_STATUS =
     \<lparr>emoji = [0xD83D, 0xDC31], message = str ''Processing your order'', step = str ''received'',
      description = str ''Your order is being processed.''\<rparr>"

text \<open>
  Reading \<open>obj[key]\<close> on an object literal: an own property, else a property inherited
  from \<open>Object.prototype\<close> (a function or an object, always truthy), else \<open>undefined\<close>.
  An \<open>undefined\<close> key is the property name \<open>"undefined"\<close>.
\<close>

definition Object_prototype_properties :: "js_string list" where
  "Object_prototype_properties =
     [str ''constructor'', str ''__defineGetter__'', str ''__defineSetter__'',
      str ''hasOwnProperty'', str ''__lookupGetter__'', str ''__lookupSetter__'',
      str ''isPrototypeOf'', str ''propertyIsEnumerable'', str ''toString'', str ''valueOf'',
      str ''__proto__'', str ''toLocaleString'']"

datatype 'a property = Own 'a | Inherited js_string | Undefined

definition property_key :: "js_string option \<Rightarrow> js_string" where
  "property_key k = (case k of None \<Rightarrow> str ''undefined'' | Some s \<Rightarrow> s)"

definition get_property :: "(js_string \<times> 'a) list \<Rightarrow> js_string option \<Rightarrow> 'a property" where
  "get_property obj k =
     (case map_of obj (property_key k) of
        Some v \<Rightarrow> Own v
      | None \<Rightarrow>
          if property_key k \<in> set Object_prototype_properties
          then Inherited (property_key k) else Undefined)"

text \<open>
  The value of \<open>STATUS_CONFIG[status] || DEFAULT_STATUS\<close>: a descriptor, or the
  inherited value, whose \<open>emoji\<close>, \<open>message\<close> and \<open>step\<close> all read as \<open>undefined\<close>.
\<close>

datatype config_value = Config status_descriptor | PrototypeValue js_string

definition getStatusConfig :: "js_string option \<Rightarrow> config_value" where
  "getStatusConfig st =
     (case get_property STATUS_CONFIG st of
        Own d \<Rightarrow> Config d
      | Inherited k \<Rightarrow> PrototypeValue k
      | Undefined \<Rightarrow> Config DEFAULT_STATUS)"

fun config_emoji :: "config_value \<Rightarrow> js_string option" where
  "config_emoji (Config d) = Some (emoji d)"
| "config_emoji (PrototypeValue k) = None"

fun config_message :: "config_value \<Rightarrow> js_string option" where
  "config_message (Config d) = Some (message d)"
| "config_message (PrototypeValue k) = None"

fun config_step :: "config_value \<Rightarrow> js_string option" where
  "config_step (Config d) = Some (step d)"
| "config_step (PrototypeValue k) = None"

definition getStatusSteps :: "js_string list" where
  "getStatusSteps =
     [str ''received'', str ''queue'', str ''printing'', str ''processing'', str ''quality'',
      str ''packaging'', str ''shipped'', str ''delivered'']"

text \<open>\<open>Array.prototype.indexOf\<close>: the first position, or \<open>-1\<close>.\<close>

fun indexOf_from :: "'a list \<Rightarrow> 'a \<Rightarrow> int \<Rightarrow> int" where
  "indexOf_from [] x i = - 1"
| "indexOf_from (y # ys) x i = (if y = x then i else indexOf_from ys x (i + 1))"

definition indexOf :: "'a list \<Rightarrow> 'a \<Rightarrow> int" where
  "indexOf xs x = indexOf_from xs x 0"

text \<open>\<open>undefined\<close> is strictly equal to no string of the list.\<close>

definition getStatusIndex :: "js_string option \<Rightarrow> int" where
  "getStatusIndex st = (case st of None \<Rightarrow> - 1 | Some s \<Rightarrow> indexOf getStatusSteps s)"

text \<open>The eight canonical labels, in the order the specification lists them.\<close>

definition canonical_labels :: "js_string list" where
  "canonical_labels =
     [str ''Order Received'', str ''In Queue'', str ''Printing'', str ''Post-Processing'',
      str ''Quality Control'', str ''Packaging'', str ''Shipped'', str ''Delivered'']"


section \<open>The page\<close>

text \<open>
  What an element shows: text set through \<open>textContent\<close>, markup assigned to
  \<open>innerHTML\<close>, or a single child element with its attributes.
\<close>

datatype node_content =
    TextContent js_string
  | InnerHTML js_string
  | ChildElement js_string "(js_string \<times> js_string) list"

text \<open>Assigning \<open>undefined\<close> to \<open>textContent\<close> empties the element.\<close>

definition set_textContent :: "js_string option \<Rightarrow> node_content" where
  "set_textContent v = TextContent (case v of None \<Rightarrow> [] | Some s \<Rightarrow> s)"

text \<open>A \<open>classList\<close> is an ordered set of tokens.\<close>

type_synonym classList = "js_string list"

definition classList_remove :: "js_string list \<Rightarrow> classList \<Rightarrow> classList" where
  "classList_remove tokens cl = filter (\<lambda>c. c \<notin> set tokens) cl"

definition classList_add :: "js_string \<Rightarrow> classList \<Rightarrow> classList" where
  "classList_add token cl = (if token \<in> set cl then cl else cl @ [token])"

definition classList_contains :: "classList \<Rightarrow> js_string \<Rightarrow> bool" where
  "classList_contains cl token = (token \<in> set cl)"

text \<open>
  The elements the tracker reads and writes, each \<open>None\<close> when the selector finds
  nothing. The selectors are taken to find pairwise different elements.
\<close>

record dom =
  status_emoji :: "node_content option"
  status_title :: "node_content option"
  status_message :: "node_content option"
  order_status :: "classList option"
  order_product :: "node_content option"
  order_date :: "node_content option"
  tracking_container :: "classList option"
  tracking_number :: "node_content option"
  order_details :: "classList option"
  timeline_steps :: "classList list"
  status_timeline_display :: "js_string option"

record orderTracker_config =
  apiEndpoint :: "js_string option"
  animationMode :: "js_string option"
  lottieUrls :: "(js_string \<times> js_string) list option"

text \<open>
  The \<open>window\<close>: the tracker section of \<open>AdditiveArtisanConfig\<close>, which modules are
  loaded, and the host's own functions that the code calls: the protocol \<open>new URL(u)\<close>
  parses (\<open>None\<close> when it throws), \<open>toLocaleDateString\<close> of a parsed date, and the
  message of the \<open>TypeError\<close> raised by reading a property of \<open>undefined\<close> or \<open>null\<close>.
\<close>

record window =
  orderTracker :: "orderTracker_config option"
  AdditiveArtisanUtils :: bool
  AdditiveArtisanAPI :: bool
  AdditiveArtisanTracker :: bool
  URL_protocol :: "js_string \<Rightarrow> js_string option"
  toLocaleDateString :: "js_string \<Rightarrow> js_string"
  TypeError_message :: js_string

definition truthy :: "js_string option \<Rightarrow> bool" where
  "truthy v = (case v of None \<Rightarrow> False | Some s \<Rightarrow> s \<noteq> [])"

definition API_ENDPOINT :: "window \<Rightarrow> js_string" where
  "API_ENDPOINT w =
     (case orderTracker w of
        None \<Rightarrow> []
      | Some c \<Rightarrow> (if truthy (apiEndpoint c) then the (apiEndpoint c) else []))"


section \<open>utils.js\<close>

text \<open>
  \<open>escapeHTML\<close> writes the string as text into a fresh element and reads the markup
  back: the serialiser replaces \<open>&\<close>, \<open><\<close>, \<open>>\<close> and the no-break space.
\<close>

definition serialize_text_unit :: "nat \<Rightarrow> js_string" where
  "serialize_text_unit c =
     (if c = 38 then str ''&amp;''
      else if c = 60 then str ''&lt;''
      else if c = 62 then str ''&gt;''
      else if c = 160 then str ''&nbsp;''
      else [c])"

definition escapeHTML :: "js_string \<Rightarrow> js_string" where
  "escapeHTML s = (if s = [] then [] else concat (map serialize_text_unit s))"

definition isValidURL :: "window \<Rightarrow> js_string \<Rightarrow> bool" where
  "isValidURL w url =
     (if url = [] then False
      else case URL_protocol w url of
             None \<Rightarrow> False
           | Some p \<Rightarrow> p = str ''http:'' \<or> p = str ''https:'')"

definition formatDate :: "window \<Rightarrow> js_string \<Rightarrow> js_string" where
  "formatDate w dateString = (if dateString = [] then [] else toLocaleDateString w dateString)"


section \<open>order\_tracker.js: rendering\<close>

definition lottie_player :: "js_string \<Rightarrow> node_content" where
  "lottie_player lottieUrl =
     ChildElement (str ''lottie-player'')
       [(str ''src'', lottieUrl), (str ''background'', str ''transparent''), (str ''speed'', str ''1''),
        (str ''style'', str ''width: 150px; height: 150px;''), (str ''loop'', []), (str ''autoplay'', [])]"

text \<open>\<open>config?.animationMode || "emoji"\<close>.\<close>

definition animation_mode :: "window \<Rightarrow> js_string" where
  "animation_mode w =
     (case orderTracker w of
        None \<Rightarrow> str ''emoji''
      | Some c \<Rightarrow> (if truthy (animationMode c) then the (animationMode c) else str ''emoji''))"

text \<open>
  \<open>config?.lottieUrls?.[step]\<close> when it is a non-empty string; an inherited value is
  truthy but no URL, so it falls back to the emoji as an invalid URL does.
\<close>

definition lottie_url :: "window \<Rightarrow> js_string option \<Rightarrow> js_string property" where
  "lottie_url w st =
     (case orderTracker w of
        None \<Rightarrow> Undefined
      | Some c \<Rightarrow> (case lottieUrls c of None \<Rightarrow> Undefined | Some urls \<Rightarrow> get_property urls st))"

text \<open>
  What \<open>renderAnimation\<close> puts into \<open>#status-emoji\<close>: the Lottie player when the mode is
  \<open>"lottie"\<close>, a URL is configured for the step and \<open>isValidURL\<close> accepts it, else the
  emoji of the descriptor. Without the element the function returns at once.
\<close>

definition animation :: "window \<Rightarrow> js_string option \<Rightarrow> config_value \<Rightarrow> node_content" where
  "animation w st statusConfig =
     (case (if animation_mode w = str ''lottie'' then lottie_url w st else Undefined) of
        Own lottieUrl \<Rightarrow>
          if lottieUrl = [] then set_textContent (config_emoji statusConfig)
          else if \<not> (AdditiveArtisanUtils w \<and> isValidURL w lottieUrl)
          then set_textContent (config_emoji statusConfig)
          else lottie_player lottieUrl
      | Inherited k \<Rightarrow> set_textContent (config_emoji statusConfig)
      | Undefined \<Rightarrow> set_textContent (config_emoji statusConfig))"

definition renderAnimation :: "window \<Rightarrow> js_string option \<Rightarrow> config_value \<Rightarrow> dom \<Rightarrow> dom" where
  "renderAnimation w st statusConfig d =
     (case status_emoji d of
        None \<Rightarrow> d
      | Some old \<Rightarrow> d\<lparr>status_emoji := Some (animation w st statusConfig)\<rparr>)"

definition updateOrderDetails :: "window \<Rightarrow> order_record \<Rightarrow> dom \<Rightarrow> dom" where
  "updateOrderDetails w ord d =
     (let d1 = (if order_product d \<noteq> None \<and> truthy (product ord)
                then d\<lparr>order_product := Some (TextContent (the (product ord)))\<rparr> else d);
          d2 = (if order_date d1 \<noteq> None \<and> truthy (createdDate ord)
                then d1\<lparr>order_date := Some (TextContent
                       (if AdditiveArtisanUtils w then formatDate w (the (createdDate ord))
                        else the (createdDate ord)))\<rparr>
                else d1);
          d3 = (case (tracking_container d2, tracking_number d2) of
                  (Some container, Some number) \<Rightarrow>
                    if truthy (trackingNumber ord)
                    then d2\<lparr>tracking_number := Some (TextContent (the (trackingNumber ord))),
                            tracking_container := Some (classList_remove [str ''hidden''] container)\<rparr>
                    else d2\<lparr>tracking_container := Some (classList_add (str ''hidden'') container)\<rparr>
                | _ \<Rightarrow> d2)
      in d3\<lparr>order_details := map_option (classList_remove [str ''hidden'']) (order_details d3)\<rparr>)"

definition timeline_step_classes :: "int \<Rightarrow> int \<Rightarrow> classList \<Rightarrow> classList" where
  "timeline_step_classes currentIndex index cl =
     (let cl' = classList_remove [str ''completed'', str ''active''] cl
      in if index < currentIndex then classList_add (str ''completed'') cl'
         else if index = currentIndex then classList_add (str ''active'') cl'
         else cl')"

definition updateTimeline :: "js_string option \<Rightarrow> dom \<Rightarrow> dom" where
  "updateTimeline currentStep d =
     d\<lparr>timeline_steps :=
         map (\<lambda>(index, stepElement). timeline_step_classes (getStatusIndex currentStep) (int index) stepElement)
           (enumerate 0 (timeline_steps d))\<rparr>"

text \<open>
  \<open>displayOrderStatus\<close> throws at its first read (\<open>order.status\<close>), before any change to
  the page, when the envelope has no \<open>order\<close>; \<open>display_order\<close> is the rest of its body.
\<close>

definition display_order :: "window \<Rightarrow> order_record \<Rightarrow> dom \<Rightarrow> dom" where
  "display_order w ord d =
     (let statusConfig = getStatusConfig (status ord);
          d1 = renderAnimation w (config_step statusConfig) statusConfig d;
          d2 = d1\<lparr>status_title := map_option (\<lambda>old. set_textContent (status ord)) (status_title d1)\<rparr>;
          d3 = d2\<lparr>status_message :=
                    map_option (\<lambda>old. set_textContent (config_message statusConfig)) (status_message d2)\<rparr>;
          d4 = updateOrderDetails w ord d3;
          d5 = updateTimeline (config_step statusConfig) d4
      in d5\<lparr>order_status := map_option (classList_remove [str ''hidden'']) (order_status d5)\<rparr>)"

definition displayOrderStatus :: "window \<Rightarrow> envelope \<Rightarrow> dom \<Rightarrow> js_error + dom" where
  "displayOrderStatus w orderData d =
     (case order orderData of
        None \<Rightarrow> Inl (JsError (str ''TypeError'') (TypeError_message w))
      | Some ord \<Rightarrow> Inr (display_order w ord d))"

text \<open>The replacement table used when the utilities module is not loaded.\<close>

definition replace_entity :: "nat \<Rightarrow> js_string" where
  "replace_entity c =
     (if c = 38 then str ''&amp;''
      else if c = 60 then str ''&lt;''
      else if c = 62 then str ''&gt;''
      else if c = 34 then str ''&quot;''
      else if c = 39 then str ''&#39;''
      else [c])"

definition error_markup :: "js_string \<Rightarrow> js_string" where
  "error_markup escapedMessage =
     [10] @ str ''        <span class=\"error-message\">'' @ [0x274C] @ str '' '' @ escapedMessage
       @ str ''</span>'' @ [10] @ str ''      ''"

definition displayError :: "window \<Rightarrow> js_string \<Rightarrow> dom \<Rightarrow> dom" where
  "displayError w msg d =
     (let escapedMessage = (if AdditiveArtisanUtils w then escapeHTML msg
                            else concat (map replace_entity msg));
          d1 = d\<lparr>status_message :=
                   map_option (\<lambda>old. InnerHTML (error_markup escapedMessage)) (status_message d)\<rparr>;
          d2 = d1\<lparr>order_status := map_option (classList_remove [str ''hidden'']) (order_status d1)\<rparr>
      in d2\<lparr>status_timeline_display := map_option (\<lambda>old. str ''none'') (status_timeline_display d2)\<rparr>)"

definition showLoading :: "dom \<Rightarrow> dom" where
  "showLoading d =
     (let d1 = d\<lparr>status_message :=
                   map_option (\<lambda>old. TextContent (str ''Looking up your order...'')) (status_message d)\<rparr>;
          d2 = d1\<lparr>status_emoji := map_option (\<lambda>old. TextContent [0xD83D, 0xDC31]) (status_emoji d1)\<rparr>;
          d3 = d2\<lparr>order_status := map_option (classList_remove [str ''hidden'']) (order_status d2)\<rparr>;
          d4 = d3\<lparr>timeline_steps :=
                    map (classList_remove [str ''completed'', str ''active'']) (timeline_steps d3)\<rparr>
      in d4\<lparr>status_timeline_display := map_option (\<lambda>old. str ''flex'') (status_timeline_display d4)\<rparr>)"


section \<open>order\_tracker.js: the lookup\<close>

text \<open>
  \<open>encodeURIComponent\<close>: unreserved units stay, every other code point is written as
  the percent-escaped bytes of its UTF-8 form; a lone surrogate raises a \<open>URIError\<close>.
\<close>

definition uri_unreserved :: "nat \<Rightarrow> bool" where
  "uri_unreserved c =
     ((65 \<le> c \<and> c \<le> 90) \<or> (97 \<le> c \<and> c \<le> 122) \<or> (48 \<le> c \<and> c \<le> 57) \<or>
      c \<in> set (str ''-_.!~*()'' @ [39]))"

definition hex_digit :: "nat \<Rightarrow> nat" where
  "hex_digit n = (if n < 10 then 48 + n else 55 + n)"

definition percent_byte :: "nat \<Rightarrow> js_string" where
  "percent_byte b = [37, hex_digit (b div 16), hex_digit (b mod 16)]"

definition utf8_bytes :: "nat \<Rightarrow> nat list" where
  "utf8_bytes cp =
     (if cp < 0x80 then [cp]
      else if cp < 0x800 then [0xC0 + cp div 64, 0x80 + cp mod 64]
      else if cp < 0x10000 then [0xE0 + cp div 4096, 0x80 + (cp div 64) mod 64, 0x80 + cp mod 64]
      else [0xF0 + cp div 262144, 0x80 + (cp div 4096) mod 64, 0x80 + (cp div 64) mod 64,
            0x80 + cp mod 64])"

definition percent_encode :: "nat \<Rightarrow> js_string" where
  "percent_encode cp = concat (map percent_byte (utf8_bytes cp))"

definition URIError :: js_error where
  "URIError = JsError (str ''URIError'') (str ''URI malformed'')"

definition prepend :: "js_string \<Rightarrow> js_error + js_string \<Rightarrow> js_error + js_string" where
  "prepend p r = (case r of Inl e \<Rightarrow> Inl e | Inr s \<Rightarrow> Inr (p @ s))"

fun encodeURIComponent :: "js_string \<Rightarrow> js_error + js_string" where
  "encodeURIComponent [] = Inr []"
| "encodeURIComponent [c] =
     (if uri_unreserved c then Inr [c]
      else if 0xD800 \<le> c \<and> c \<le> 0xDFFF then Inl URIError
      else Inr (percent_encode c))"
| "encodeURIComponent (c # d # cs) =
     (if uri_unreserved c then prepend [c] (encodeURIComponent (d # cs))
      else if 0xDC00 \<le> c \<and> c \<le> 0xDFFF then Inl URIError
      else if 0xD800 \<le> c \<and> c \<le> 0xDBFF then
        (if 0xDC00 \<le> d \<and> d \<le> 0xDFFF
         then prepend (percent_encode ((c - 0xD800) * 0x400 + (d - 0xDC00) + 0x10000))
                (encodeURIComponent cs)
         else Inl URIError)
      else prepend (percent_encode c) (encodeURIComponent (d # cs)))"

text \<open>
  \<open>fetchOrderStatus(orderId, email)\<close>: the settlement of its promise and the events
  issued. With the helper module loaded the request goes through \<open>fetchWithRetry(url)\<close>,
  whose defaults are \<open>options = {}\<close> and \<open>maxRetries = 3\<close>; otherwise through a bare
  \<open>fetch(url)\<close>, which has no timer.
\<close>

definition build_url :: "window \<Rightarrow> js_string \<Rightarrow> js_string \<Rightarrow> js_error + js_string" where
  "build_url w oid email =
     (case encodeURIComponent oid of
        Inl e \<Rightarrow> Inl e
      | Inr encodedId \<Rightarrow>
          (let url = API_ENDPOINT w @ str ''?orderId='' @ encodedId
           in if email \<noteq> [] then prepend (url @ str ''&email='') (encodeURIComponent email)
              else Inr url))"

definition interpret_response :: "window \<Rightarrow> response option \<Rightarrow> js_error + envelope" where
  "interpret_response w resp =
     (case resp of
        None \<Rightarrow> Inl (JsError (str ''TypeError'') (TypeError_message w))
      | Some r \<Rightarrow>
          (case resp_json r of
             Inl e \<Rightarrow> Inl e
           | Inr data \<Rightarrow>
               if \<not> ok r \<or> \<not> success data
               then Inl (JsError (str ''Error'')
                          (if truthy (error data) then the (error data)
                           else str ''Failed to fetch order status''))
               else Inr data))"

definition fetchOrderStatus ::
  "window \<Rightarrow> transport \<Rightarrow> js_string \<Rightarrow> js_string \<Rightarrow> (js_error + envelope) \<times> event list" where
  "fetchOrderStatus w net oid email =
     (case build_url w oid email of
        Inl e \<Rightarrow> (Inl e, [])
      | Inr url \<Rightarrow>
          if AdditiveArtisanAPI w then
            (case fetchWithRetry net url () 3 of
               (Inl e, es) \<Rightarrow> (Inl e, es)
             | (Inr resp, es) \<Rightarrow> (interpret_response w resp, es))
          else
            (case settles (net 0 url) of
               Inl e \<Rightarrow> (Inl e, [FetchPlain url])
             | Inr r \<Rightarrow> (interpret_response w (Some r), [FetchPlain url])))"


section \<open>main.js: the search form\<close>

text \<open>\<open>String.prototype.trim\<close> strips white space and line terminators at both ends.\<close>

definition is_white_space :: "nat \<Rightarrow> bool" where
  "is_white_space c =
     (c \<in> set [0x9, 0xA, 0xB, 0xC, 0xD, 0x20, 0xA0, 0x1680, 0x2028, 0x2029, 0x202F, 0x205F,
                 0x3000, 0xFEFF] \<or> (0x2000 \<le> c \<and> c \<le> 0x200A))"

definition trim :: "js_string \<Rightarrow> js_string" where
  "trim s = rev (dropWhile is_white_space (rev (dropWhile is_white_space s)))"

text \<open>
  The regular expressions of the form are anchored sequences of quantified character
  classes: \<open>Atom cls lo hi\<close> is \<open>[cls]{lo,hi}\<close> (\<open>hi = None\<close>: unbounded), a class a list
  of inclusive code-unit ranges. \<open>regex_test\<close> is \<open>/^...$/.test(s)\<close>.
\<close>

type_synonym char_class = "(nat \<times> nat) list"

datatype atom = Atom char_class nat "nat option"

fun in_class :: "char_class \<Rightarrow> nat \<Rightarrow> bool" where
  "in_class [] c = False"
| "in_class ((lo, hi) # rs) c = ((lo \<le> c \<and> c \<le> hi) \<or> in_class rs c)"

fun decrement :: "nat option \<Rightarrow> nat option" where
  "decrement None = None"
| "decrement (Some h) = Some (h - 1)"

fun regex_test :: "atom list \<Rightarrow> js_string \<Rightarrow> bool" where
  "regex_test [] s = (s = [])"
| "regex_test (Atom cls 0 hi # as) [] = regex_test as []"
| "regex_test (Atom cls (Suc lo) hi # as) [] = False"
| "regex_test (Atom cls 0 hi # as) (c # cs) =
     (regex_test as (c # cs) \<or>
      (hi \<noteq> Some 0 \<and> in_class cls c \<and> regex_test (Atom cls 0 (decrement hi) # as) cs))"
| "regex_test (Atom cls (Suc lo) hi # as) (c # cs) =
     (in_class cls c \<and> regex_test (Atom cls lo (decrement hi) # as) cs)"

definition upper :: char_class where "upper = [(65, 90)]"
definition digit :: char_class where "digit = [(48, 57)]"
definition literal :: "nat \<Rightarrow> atom" where "literal c = Atom [(c, c)] 1 (Some 1)"

definition orderIdPattern :: "atom list" where
  "orderIdPattern =
     [Atom upper 2 (Some 2), literal 45, Atom digit 4 (Some 4), literal 45, Atom digit 4 (Some 4)]"

definition emailRegex :: "atom list" where
  "emailRegex =
     [Atom [(97, 122), (65, 90), (48, 57), (46, 46), (95, 95), (37, 37), (43, 43), (45, 45)] 1 None,
      literal 64,
      Atom [(97, 122), (65, 90), (48, 57), (46, 46), (45, 45)] 1 None,
      literal 46,
      Atom [(97, 122), (65, 90)] 2 None]"

text \<open>
  The two inputs of the search form. \<open>group_hidden\<close> is whether the closest
  \<open>.form-group\<close> of the e-mail input carries the class \<open>hidden\<close>, \<open>None\<close> when the input
  has no such ancestor.
\<close>

record email_input =
  email_value :: js_string
  group_hidden :: "bool option"

record search_form =
  order_id :: "js_string option"
  order_email :: "email_input option"

text \<open>
  The outcome of one submission: the events in order, the page afterwards, and the
  exception that escapes the handler, if any. \<open>track_order\<close> is the \<open>try\<close>/\<open>catch\<close>
  at the end of \<open>handleOrderSearch\<close>.
\<close>

record search_result =
  events :: "event list"
  page :: dom
  uncaught :: "js_error option"

definition error_message_or_default :: "js_error \<Rightarrow> js_string" where
  "error_message_or_default e =
     (if err_message e \<noteq> [] then err_message e
      else str ''Unable to find order. Please check your order number and email address.'')"

definition track_order :: "window \<Rightarrow> transport \<Rightarrow> js_string \<Rightarrow> js_string \<Rightarrow> dom \<Rightarrow> search_result" where
  "track_order w net oid email d =
     (case fetchOrderStatus w net oid email of
        (Inl e, es) \<Rightarrow>
          \<lparr>events = es, page = displayError w (error_message_or_default e) (showLoading d),
           uncaught = None\<rparr>
      | (Inr orderData, es) \<Rightarrow>
          (case displayOrderStatus w orderData (showLoading d) of
             Inl e \<Rightarrow>
               \<lparr>events = es, page = displayError w (error_message_or_default e) (showLoading d),
                uncaught = None\<rparr>
           | Inr d' \<Rightarrow> \<lparr>events = es, page = d', uncaught = None\<rparr>))"

definition handleOrderSearch :: "window \<Rightarrow> transport \<Rightarrow> search_form \<Rightarrow> dom \<Rightarrow> search_result" where
  "handleOrderSearch w net form d =
     (case order_id form of
        None \<Rightarrow> \<lparr>events = [], page = d, uncaught = None\<rparr>
      | Some idValue \<Rightarrow>
          (let oid = trim idValue;
               email = (case order_email form of None \<Rightarrow> [] | Some inp \<Rightarrow> trim (email_value inp))
           in if oid = [] then
                \<lparr>events = [ClearAllFormErrors, ShowFormError (str ''Please enter an order number.'') OrderIdInput],
                 page = d, uncaught = None\<rparr>
              else if \<not> regex_test orderIdPattern oid then
                \<lparr>events = [ClearAllFormErrors,
                           ShowFormError (str ''Invalid order ID format. Expected: AA-2024-0047'') OrderIdInput],
                 page = d, uncaught = None\<rparr>
              else
                (case (case order_email form of
                         None \<Rightarrow> Some False
                       | Some inp \<Rightarrow> map_option Not (group_hidden inp)) of
                   None \<Rightarrow>
                     \<lparr>events = [ClearAllFormErrors], page = d,
                      uncaught = Some (JsError (str ''TypeError'') (TypeError_message w))\<rparr>
                 | Some emailFieldVisible \<Rightarrow>
                     if emailFieldVisible \<and> email = [] then
                       \<lparr>events = [ClearAllFormErrors,
                                  ShowFormError (str ''Please enter your email address.'') EmailInput],
                        page = d, uncaught = None\<rparr>
                     else if email \<noteq> [] \<and> \<not> regex_test emailRegex email then
                       \<lparr>events = [ClearAllFormErrors,
                                  ShowFormError (str ''Please enter a valid email address.'') EmailInput],
                        page = d, uncaught = None\<rparr>
                     else if \<not> AdditiveArtisanTracker w then
                       \<lparr>events = [ClearAllFormErrors,
                                  ShowFormError
                                    (str ''Order tracking is currently unavailable. Please try again later.'')
                                    OrderIdInput],
                        page = d, uncaught = None\<rparr>
                     else (let r = track_order w net oid email d
                           in r\<lparr>events := ClearAllFormErrors # events r\<rparr>))))"


section \<open>Vocabulary of the properties\<close>

text \<open>The marks a timeline stage can carry.\<close>

definition completed :: "classList \<Rightarrow> bool" where
  "completed cl = classList_contains cl (str ''completed'')"

definition active :: "classList \<Rightarrow> bool" where
  "active cl = classList_contains cl (str ''active'')"

definition is_mark :: "js_string \<Rightarrow> bool" where
  "is_mark token = (token = str ''completed'' \<or> token = str ''active'')"

text \<open>The class lists \<open>updateTimeline\<close> leaves on the stages when the current index is \<open>k\<close>.\<close>

definition mark_steps :: "int \<Rightarrow> classList list \<Rightarrow> classList list" where
  "mark_steps k steps = map (\<lambda>(index, el). timeline_step_classes k (int index) el) (enumerate 0 steps)"

definition no_stage_marked :: "dom \<Rightarrow> bool" where
  "no_stage_marked d = list_all (\<lambda>cl. \<not> completed cl \<and> \<not> active cl) (timeline_steps d)"

text \<open>
  The identifier format in the specification's words: two uppercase letters, a hyphen,
  four digits, a hyphen, four digits.
\<close>

definition is_upper_letter :: "nat \<Rightarrow> bool" where
  "is_upper_letter c = (65 \<le> c \<and> c \<le> 90)"

definition is_digit :: "nat \<Rightarrow> bool" where
  "is_digit c = (48 \<le> c \<and> c \<le> 57)"

definition order_id_format :: "js_string \<Rightarrow> bool" where
  "order_id_format s =
     (length s = 12 \<and> list_all is_upper_letter (take 2 s) \<and> s ! 2 = 45 \<and>
      list_all is_digit (take 4 (drop 3 s)) \<and> s ! 7 = 45 \<and> list_all is_digit (drop 8 s))"

definition missing_identifier :: event where
  "missing_identifier = ShowFormError (str ''Please enter an order number.'') OrderIdInput"

definition bad_format :: event where
  "bad_format = ShowFormError (str ''Invalid order ID format. Expected: AA-2024-0047'') OrderIdInput"

definition rejected_with :: "event \<Rightarrow> dom \<Rightarrow> search_result" where
  "rejected_with e d = \<lparr>events = [ClearAllFormErrors, e], page = d, uncaught = None\<rparr>"



text \<open>No endpoint is configured: \<open>apiEndpoint\<close> is missing or empty.\<close>

definition no_endpoint :: "window \<Rightarrow> bool" where
  "no_endpoint w = (case orderTracker w of None \<Rightarrow> True | Some c \<Rightarrow> \<not> truthy (apiEndpoint c))"


section \<open>Example inputs\<close>

text \<open>The tracker section of \<open>js/config.js\<close>.\<close>

definition site_config :: orderTracker_config where
  "site_config =
     \<lparr>apiEndpoint = Some (str ''https://YOUR_WORKER.workers.dev/orders''),
      animationMode = Some (str ''emoji''),
      lottieUrls = Some
        [(str ''received'', str ''https://assets.lottiefiles.com/packages/YOUR_ANIMATION_URL_1.json''),
         (str ''queue'', str ''https://assets.lottiefiles.com/packages/YOUR_ANIMATION_URL_2.json''),
         (str ''printing'', str ''https://assets.lottiefiles.com/packages/YOUR_ANIMATION_URL_3.json''),
         (str ''processing'', str ''https://assets.lottiefiles.com/packages/YOUR_ANIMATION_URL_4.json''),
         (str ''quality'', str ''https://assets.lottiefiles.com/packages/YOUR_ANIMATION_URL_5.json''),
         (str ''packaging'', str ''https://assets.lottiefiles.com/packages/YOUR_ANIMATION_URL_6.json''),
         (str ''shipped'', str ''https://assets.lottiefiles.com/packages/YOUR_ANIMATION_URL_7.json''),
         (str ''delivered'', str ''https://assets.lottiefiles.com/packages/YOUR_ANIMATION_URL_8.json'')]\<rparr>"

text \<open>
  The host of the examples. Its URL parser is described on the eight configured animation
  URLs only, each of which parses with the protocol \<open>https:\<close>; on every other string, and
  for the formatting of dates, nothing is said.
\<close>

definition host_URL_protocol :: "js_string \<Rightarrow> js_string option" where
  "host_URL_protocol u =
     (if u \<in> set (map snd (the (lottieUrls site_config))) then Some (str ''https:'')
      else undefined u)"

definition host_toLocaleDateString :: "js_string \<Rightarrow> js_string" where
  "host_toLocaleDateString dateString = undefined dateString"

text \<open>The site with that configuration and every module loaded.\<close>

definition site :: window where
  "site =
     \<lparr>orderTracker = Some site_config, AdditiveArtisanUtils = True, AdditiveArtisanAPI = True,
      AdditiveArtisanTracker = True,
      URL_protocol = host_URL_protocol, toLocaleDateString = host_toLocaleDateString,
      TypeError_message = str ''Cannot read properties of undefined''\<rparr>"

text \<open>The same site with no tracker configuration at all.\<close>

definition unconfigured_site :: window where
  "unconfigured_site = site\<lparr>orderTracker := None\<rparr>"

text \<open>A tracking section with every element present and eight unmarked timeline stages.\<close>

definition tracking_section :: dom where
  "tracking_section =
     \<lparr>status_emoji = Some (TextContent [0xD83D, 0xDC31]),
      status_title = Some (TextContent []),
      status_message = Some (TextContent []),
      order_status = Some [str ''order-status'', str ''hidden''],
      order_product = Some (TextContent []),
      order_date = Some (TextContent []),
      tracking_container = Some [str ''hidden''],
      tracking_number = Some (TextContent []),
      order_details = Some [str ''order-details'', str ''hidden''],
      timeline_steps = replicate 8 [str ''timeline-step''],
      status_timeline_display = Some []\<rparr>"

definition empty_order :: order_record where
  "empty_order =
     \<lparr>orderId = None, status = None, product = None, trackingNumber = None, createdDate = None,
      updatedDate = None\<rparr>"

definition found_order :: "string \<Rightarrow> order_record" where
  "found_order label =
     empty_order\<lparr>orderId := Some (str ''AA-2024-0047''), status := Some (str label),
                 product := Some (str ''Test Product'')\<rparr>"

definition found :: "string \<Rightarrow> envelope" where
  "found label = \<lparr>success = True, error = None, order = Some (found_order label)\<rparr>"

definition not_found :: envelope where
  "not_found =
     \<lparr>success = False, error = Some (str ''Order not found or email doesn'' @ [39] @ str ''t match''),
      order = None\<rparr>"

definition answer :: "nat \<Rightarrow> string \<Rightarrow> envelope \<Rightarrow> fetch_outcome" where
  "answer code text data =
     \<lparr>latency = 120, settles = Inr \<lparr>resp_status = code, resp_statusText = str text, resp_json = Inr data\<rparr>\<rparr>"

definition stalled :: fetch_outcome where
  "stalled = \<lparr>latency = 60000, settles = Inl (JsError (str ''TypeError'') (str ''Failed to fetch''))\<rparr>"


definition aborted :: fetch_outcome where
  "aborted = \<lparr>latency = 5, settles = Inl (JsError (str ''AbortError'') (str ''The user aborted a request.''))\<rparr>"


text \<open>A transport that stalls once, answers 503 once, then answers 200.\<close>

definition flaky_net :: transport where
  "flaky_net n url =
     (if n = 0 then stalled
      else if n = 1 then answer 503 ''Service Unavailable'' not_found
      else answer 200 ''OK'' (found ''Printing''))"

text \<open>The documented worker's answer for an order it does not find: 404 with an error envelope.\<close>

definition not_found_net :: transport where
  "not_found_net n url = answer 404 ''Not Found'' not_found"

text \<open>The specification's end-to-end answer: 200 with a found order in status \<open>Printing\<close>.\<close>

definition found_net :: transport where
  "found_net n url = answer 200 ''OK'' (found ''Printing'')"

definition example_form :: search_form where
  "example_form = \<lparr>order_id = Some (str ''AA-2024-0047''), order_email = None\<rparr>"


section \<open>Strings\<close>

lemma str_eq_iff [simp]: "str s = str t \<longleftrightarrow> s = t"
  by (simp add: str_def inj_map_eq_map inj_of_char)

lemma str_Nil [simp]: "str [] = []"
  by (simp add: str_def)

lemma str_eq_Nil [simp]: "str s = [] \<longleftrightarrow> s = []" "[] = str s \<longleftrightarrow> s = []"
  by (auto simp: str_def)

section \<open>The retry loop\<close>

lemma retry_try_success:
  "attempt_succeeds (net i url) r \<Longrightarrow> retry_try net url m i = Returned r"
  by (simp add: attempt_succeeds_def retry_try_def fetchWithTimeout_def fetch_with_signal_def)

lemma retry_try_fails_mid:
  "attempt_fails (net i url) \<Longrightarrow> int i \<noteq> m - 1 \<Longrightarrow>
   retry_try net url m i = FellThrough \<or> (\<exists>e. retry_try net url m i = Thrown e)"
  by (auto simp: attempt_fails_def retry_try_def fetchWithTimeout_def fetch_with_signal_def
      split: sum.splits)



lemma loop_success:
  "int i < m \<Longrightarrow> attempt_succeeds (net i url) r \<Longrightarrow>
   fetchWithRetry_loop net url opts m i = (Inr (Some r), [Fetch url 10000])"
  by (subst fetchWithRetry_loop.simps) (simp add: retry_try_success)

lemma loop_fails_last:
  "int i = m - 1 \<Longrightarrow> retry_try net url m i = Thrown e \<Longrightarrow>
   fetchWithRetry_loop net url opts m i = (Inl e, [Fetch url 10000])"
  by (subst fetchWithRetry_loop.simps) simp

lemma loop_fails_mid:
  assumes "int i < m" "int i \<noteq> m - 1" "attempt_fails (net i url)"
  shows "fetchWithRetry_loop net url opts m i =
         (fst (fetchWithRetry_loop net url opts m (Suc i)),
          Fetch url 10000 # Sleep (2 ^ i * 1000) # snd (fetchWithRetry_loop net url opts m (Suc i)))"
  using retry_try_fails_mid [of net i url m] assms
  by (subst fetchWithRetry_loop.simps) (auto split: prod.splits)

lemma backoff_trace_step:
  "i < k \<Longrightarrow> backoff_trace url i k = Fetch url 10000 # Sleep (2 ^ i * 1000) # backoff_trace url (Suc i) k"
  by (simp add: backoff_trace_def upt_conv_Cons)

lemma loop_run:
  assumes "fetchWithRetry_loop net url opts m k = (res, [Fetch url 10000])" "int k < m"
  shows "i \<le> k \<Longrightarrow> (\<forall>j. i \<le> j \<and> j < k \<longrightarrow> attempt_fails (net j url)) \<Longrightarrow>
         fetchWithRetry_loop net url opts m i = (res, backoff_trace url i k)"
proof (induction "k - i" arbitrary: i)
  case 0
  then have "i = k" by simp
  then show ?case using assms(1) by (simp add: backoff_trace_def)
next
  case (Suc d)
  then have lt: "i < k" by simp
  have ih: "fetchWithRetry_loop net url opts m (Suc i) = (res, backoff_trace url (Suc i) k)"
    using Suc by (intro Suc.hyps(1)) auto
  have "attempt_fails (net i url)" using Suc.prems lt by simp
  moreover have "int i < m" "int i \<noteq> m - 1" using lt assms(2) by auto
  ultimately show ?case
    by (simp add: loop_fails_mid ih backoff_trace_step [OF lt])
qed



lemma backoff_trace_2:
  "backoff_trace url 0 2 =
     [Fetch url 10000, Sleep 1000, Fetch url 10000, Sleep 2000, Fetch url 10000]"
  by (simp add: backoff_trace_def upt_conv_Cons)


lemma retry_exhausted:
  assumes "\<forall>j<3. attempt_fails (net j url)" "retry_try net url 3 2 = Thrown e"
  shows "fetchWithRetry net url opts 3 = (Inl e, backoff_trace url 0 2)"
proof -
  have "fetchWithRetry_loop net url opts 3 2 = (Inl e, [Fetch url 10000])"
    using assms(2) by (intro loop_fails_last) auto
  then show ?thesis
    unfolding fetchWithRetry_def using assms(1) by (intro loop_run) auto
qed






lemma str_append: "str (a @ b) = str a @ str b"
  by (simp add: str_def)





text \<open>
  Claim C9. With \<open>maxRetries\<close> zero or negative, \<open>fetchWithRetry\<close> issues no request
  and resolves with \<open>undefined\<close>.
\<close>

theorem fetchWithRetry_no_attempt:
  "maxRetries \<le> 0 \<Longrightarrow> fetchWithRetry net url options maxRetries = (Inr None, [])"
  by (simp add: fetchWithRetry_def fetchWithRetry_loop.simps)

theorem fetchWithRetry_no_attempt_witness:
  "(0::int) \<le> 0 \<and> fetchWithRetry not_found_net (str ''/orders'') () 0 = (Inr None, [])"
  using fetchWithRetry_no_attempt [where maxRetries = 0 and net = not_found_net and url = "str ''/orders''"
      and options = "()"] by simp

lemma loop_options:
  "fetchWithRetry_loop net url options1 m i = fetchWithRetry_loop net url options2 m i"
proof (induction net url options1 m i rule: fetchWithRetry_loop.induct)
  case (1 net url options1 m i)
  show ?case
    by (subst fetchWithRetry_loop.simps, subst (2) fetchWithRetry_loop.simps)
       (use 1 in \<open>auto split: try_result.splits prod.splits\<close>)
qed

lemma loop_fetches:
  "filter is_Fetch (snd (fetchWithRetry_loop net url options m i)) =
     replicate (attempts (snd (fetchWithRetry_loop net url options m i))) (Fetch url 10000)"
proof (induction net url options m i rule: fetchWithRetry_loop.induct)
  case (1 net url options m i)
  show ?case
    by (subst fetchWithRetry_loop.simps, subst (2) fetchWithRetry_loop.simps)
       (use 1 in \<open>auto simp: attempts_def split: try_result.splits prod.splits\<close>)
qed

text \<open>
  Claim C10. The \<open>options\<close> argument of \<open>fetchWithRetry\<close> reaches no request: two runs
  that differ only in \<open>options\<close> settle alike and issue the same events, and every request
  is a \<open>fetchWithTimeout\<close> of the given URL with the 10000 ms timer.
\<close>

theorem fetchWithRetry_ignores_options:
  "fetchWithRetry net url options1 maxRetries = fetchWithRetry net url options2 maxRetries \<and>
   filter is_Fetch (snd (fetchWithRetry net url options1 maxRetries)) =
     replicate (attempts (snd (fetchWithRetry net url options1 maxRetries))) (Fetch url 10000)"
  unfolding fetchWithRetry_def using loop_options loop_fetches by metis

theorem fetchWithRetry_ignores_options_witness:
  "fetchWithRetry flaky_net (str ''/orders'') () 3 =
     fetchWithRetry flaky_net (str ''/orders'') (str ''POST'') 3"
  using fetchWithRetry_ignores_options [where net = flaky_net and url = "str ''/orders''"
      and ?options1.0 = "()" and ?options2.0 = "str ''POST''" and maxRetries = 3]
  by simp



section \<open>The status registry\<close>

lemma STATUS_CONFIG_keys: "map fst STATUS_CONFIG = canonical_labels"
  by (simp add: STATUS_CONFIG_def canonical_labels_def)

lemma step_of_label:
  "config_step (getStatusConfig (Some (str ''Order Received''))) = Some (str ''received'')"
  "config_step (getStatusConfig (Some (str ''In Queue''))) = Some (str ''queue'')"
  "config_step (getStatusConfig (Some (str ''Printing''))) = Some (str ''printing'')"
  "config_step (getStatusConfig (Some (str ''Post-Processing''))) = Some (str ''processing'')"
  "config_step (getStatusConfig (Some (str ''Quality Control''))) = Some (str ''quality'')"
  "config_step (getStatusConfig (Some (str ''Packaging''))) = Some (str ''packaging'')"
  "config_step (getStatusConfig (Some (str ''Shipped''))) = Some (str ''shipped'')"
  "config_step (getStatusConfig (Some (str ''Delivered''))) = Some (str ''delivered'')"
  by (simp_all add: getStatusConfig_def get_property_def property_key_def STATUS_CONFIG_def)

lemma index_of_step:
  "getStatusIndex (Some (str ''received'')) = 0"
  "getStatusIndex (Some (str ''queue'')) = 1"
  "getStatusIndex (Some (str ''printing'')) = 2"
  "getStatusIndex (Some (str ''processing'')) = 3"
  "getStatusIndex (Some (str ''quality'')) = 4"
  "getStatusIndex (Some (str ''packaging'')) = 5"
  "getStatusIndex (Some (str ''shipped'')) = 6"
  "getStatusIndex (Some (str ''delivered'')) = 7"
  by (simp_all add: getStatusIndex_def indexOf_def getStatusSteps_def)

lemma canonical_label_cases:
  "k < 8 \<Longrightarrow> k = 0 \<or> k = 1 \<or> k = 2 \<or> k = 3 \<or> k = 4 \<or> k = 5 \<or> k = 6 \<or> k = (7::nat)"
  by arith

lemma index_of_label:
  "k < 8 \<Longrightarrow> getStatusIndex (config_step (getStatusConfig (Some (canonical_labels ! k)))) = int k"
  by (drule canonical_label_cases)
     (auto simp: canonical_labels_def step_of_label index_of_step)

text \<open>
  Claim C5. The keys of the registry table are the eight canonical labels in order, and
  for the label at position \<open>k\<close> the stage index computed from its descriptor
  (\<open>getStatusIndex\<close> of the descriptor's step) is \<open>k\<close>. The lookup is a function of the
  label alone.
\<close>

theorem stage_index_is_label_position:
  "map fst STATUS_CONFIG = canonical_labels \<and> length canonical_labels = 8 \<and>
   (k < 8 \<longrightarrow> getStatusIndex (config_step (getStatusConfig (Some (canonical_labels ! k)))) = int k)"
  by (simp add: STATUS_CONFIG_keys index_of_label) (simp add: canonical_labels_def)

theorem stage_index_is_label_position_witness:
  "(6::nat) < 8 \<and> canonical_labels ! 6 = str ''Shipped'' \<and>
   getStatusIndex (config_step (getStatusConfig (Some (str ''Shipped'')))) = 6"
  using stage_index_is_label_position [of 6] by (simp add: canonical_labels_def)

lemma unknown_status_default:
  assumes "s \<notin> set canonical_labels" "s \<notin> set Object_prototype_properties"
  shows "getStatusConfig (Some s) = Config DEFAULT_STATUS"
proof -
  have "map_of STATUS_CONFIG s = None"
    using assms(1) STATUS_CONFIG_keys by (metis map_of_eq_None_iff set_map)
  then show ?thesis
    using assms(2) by (simp add: getStatusConfig_def get_property_def property_key_def)
qed

lemma default_step_index [simp]: "getStatusIndex (Some (step DEFAULT_STATUS)) = 0"
  by (simp add: DEFAULT_STATUS_def index_of_step)

section \<open>Class lists and the timeline\<close>

lemma contains_remove [simp]:
  "classList_contains (classList_remove ts cl) t \<longleftrightarrow> t \<notin> set ts \<and> classList_contains cl t"
  by (auto simp: classList_contains_def classList_remove_def)

lemma contains_add [simp]:
  "classList_contains (classList_add t' cl) t \<longleftrightarrow> t = t' \<or> classList_contains cl t"
  by (auto simp: classList_contains_def classList_add_def)

lemma remove_idem [simp]: "classList_remove ts (classList_remove ts cl) = classList_remove ts cl"
  by (simp add: classList_remove_def)

lemma add_idem [simp]: "classList_add t (classList_add t cl) = classList_add t cl"
  by (simp add: classList_add_def)

lemma remove_add [simp]: "t \<in> set ts \<Longrightarrow> classList_remove ts (classList_add t cl) = classList_remove ts cl"
  by (simp add: classList_remove_def classList_add_def)

lemma remove_absent: "set ts \<inter> set cl = {} \<Longrightarrow> classList_remove ts cl = cl"
  by (auto simp: classList_remove_def filter_id_conv)

lemma step_completed [simp]: "completed (timeline_step_classes k i cl) \<longleftrightarrow> i < k"
  by (auto simp: completed_def timeline_step_classes_def Let_def)

lemma step_active [simp]: "active (timeline_step_classes k i cl) \<longleftrightarrow> i = k"
  by (auto simp: active_def timeline_step_classes_def Let_def)

lemma step_untouched:
  "k < i \<Longrightarrow> \<not> completed cl \<Longrightarrow> \<not> active cl \<Longrightarrow> timeline_step_classes k i cl = cl"
  by (auto simp: timeline_step_classes_def Let_def completed_def active_def classList_contains_def
      intro!: remove_absent)

lemma step_idem [simp]:
  "timeline_step_classes k i (timeline_step_classes k i cl) = timeline_step_classes k i cl"
  by (simp add: timeline_step_classes_def Let_def)

lemma step_marks_once: "length (filter is_mark (timeline_step_classes k i cl)) \<le> Suc 0"
proof -
  have "filter is_mark (classList_remove [str ''completed'', str ''active''] cl) = []"
    by (auto simp: classList_remove_def is_mark_def filter_empty_conv)
  then show ?thesis
    by (auto simp: timeline_step_classes_def Let_def classList_add_def)
qed

lemma length_mark_steps [simp]: "length (mark_steps k steps) = length steps"
  by (simp add: mark_steps_def)

lemma nth_mark_steps [simp]:
  "i < length steps \<Longrightarrow> mark_steps k steps ! i = timeline_step_classes k (int i) (steps ! i)"
  by (simp add: mark_steps_def nth_enumerate_eq)

lemma mark_steps_idem [simp]: "mark_steps k (mark_steps k steps) = mark_steps k steps"
  by (rule nth_equalityI) simp_all

lemma updateTimeline_steps:
  "timeline_steps (updateTimeline st d) = mark_steps (getStatusIndex st) (timeline_steps d)"
  by (simp add: updateTimeline_def mark_steps_def)

lemma renderAnimation_steps [simp]: "timeline_steps (renderAnimation w st c d) = timeline_steps d"
  by (simp add: renderAnimation_def split: option.splits)

lemma updateOrderDetails_steps [simp]: "timeline_steps (updateOrderDetails w ord d) = timeline_steps d"
  by (simp add: updateOrderDetails_def Let_def split: option.splits prod.splits)

lemma display_order_steps:
  "timeline_steps (display_order w ord d) =
     mark_steps (getStatusIndex (config_step (getStatusConfig (status ord)))) (timeline_steps d)"
  by (simp add: display_order_def Let_def updateTimeline_steps)

lemma renderAnimation_message [simp]: "status_message (renderAnimation w st c d) = status_message d"
  by (simp add: renderAnimation_def split: option.splits)

lemma updateOrderDetails_message [simp]: "status_message (updateOrderDetails w ord d) = status_message d"
  by (simp add: updateOrderDetails_def Let_def split: option.splits prod.splits)

lemma display_order_message:
  "status_message (display_order w ord d) =
     map_option (\<lambda>old. set_textContent (config_message (getStatusConfig (status ord)))) (status_message d)"
  by (simp add: display_order_def Let_def updateTimeline_def)

lemma printing_message:
  "config_message (getStatusConfig (Some (str ''Printing''))) = Some (str ''Your print is being created'')"
  by (simp add: getStatusConfig_def get_property_def property_key_def STATUS_CONFIG_def)

section \<open>What each rendering step does to each element\<close>

lemma renderAnimation_frame [simp]:
  "status_title (renderAnimation w st c d) = status_title d"
  "order_status (renderAnimation w st c d) = order_status d"
  "order_product (renderAnimation w st c d) = order_product d"
  "order_date (renderAnimation w st c d) = order_date d"
  "tracking_container (renderAnimation w st c d) = tracking_container d"
  "tracking_number (renderAnimation w st c d) = tracking_number d"
  "order_details (renderAnimation w st c d) = order_details d"
  "status_timeline_display (renderAnimation w st c d) = status_timeline_display d"
  by (simp_all add: renderAnimation_def split: option.splits)

lemma renderAnimation_emoji [simp]:
  "status_emoji (renderAnimation w st c d) = map_option (\<lambda>old. animation w st c) (status_emoji d)"
  by (simp add: renderAnimation_def split: option.splits)

lemma updateOrderDetails_frame [simp]:
  "status_emoji (updateOrderDetails w ord d) = status_emoji d"
  "status_title (updateOrderDetails w ord d) = status_title d"
  "order_status (updateOrderDetails w ord d) = order_status d"
  "status_timeline_display (updateOrderDetails w ord d) = status_timeline_display d"
  by (simp_all add: updateOrderDetails_def Let_def split: option.splits prod.splits)

lemma updateOrderDetails_product:
  "order_product (updateOrderDetails w ord d) =
     (if order_product d \<noteq> None \<and> truthy (product ord)
      then Some (TextContent (the (product ord))) else order_product d)"
  by (simp add: updateOrderDetails_def Let_def split: option.splits prod.splits)

lemma updateOrderDetails_date:
  "order_date (updateOrderDetails w ord d) =
     (if order_date d \<noteq> None \<and> truthy (createdDate ord)
      then Some (TextContent (if AdditiveArtisanUtils w then formatDate w (the (createdDate ord))
                              else the (createdDate ord)))
      else order_date d)"
  by (auto simp: updateOrderDetails_def Let_def split: option.splits prod.splits)

lemma updateOrderDetails_tracking_number:
  "tracking_number (updateOrderDetails w ord d) =
     (if tracking_container d \<noteq> None \<and> tracking_number d \<noteq> None \<and> truthy (trackingNumber ord)
      then Some (TextContent (the (trackingNumber ord))) else tracking_number d)"
  by (simp add: updateOrderDetails_def Let_def split: option.splits prod.splits)

lemma updateOrderDetails_tracking_container:
  "tracking_container (updateOrderDetails w ord d) =
     (if tracking_number d = None then tracking_container d
      else map_option (if truthy (trackingNumber ord) then classList_remove [str ''hidden'']
                       else classList_add (str ''hidden'')) (tracking_container d))"
  by (simp add: updateOrderDetails_def Let_def split: option.splits prod.splits)

lemma updateOrderDetails_details:
  "order_details (updateOrderDetails w ord d) =
     map_option (classList_remove [str ''hidden'']) (order_details d)"
  by (simp add: updateOrderDetails_def Let_def split: option.splits prod.splits)

lemmas updateOrderDetails_fields =
  updateOrderDetails_product updateOrderDetails_date updateOrderDetails_tracking_number
  updateOrderDetails_tracking_container updateOrderDetails_details

lemma updateTimeline_frame [simp]:
  "status_emoji (updateTimeline st d) = status_emoji d"
  "status_title (updateTimeline st d) = status_title d"
  "status_message (updateTimeline st d) = status_message d"
  "order_status (updateTimeline st d) = order_status d"
  "order_product (updateTimeline st d) = order_product d"
  "order_date (updateTimeline st d) = order_date d"
  "tracking_container (updateTimeline st d) = tracking_container d"
  "tracking_number (updateTimeline st d) = tracking_number d"
  "order_details (updateTimeline st d) = order_details d"
  "status_timeline_display (updateTimeline st d) = status_timeline_display d"
  by (simp_all add: updateTimeline_def)

lemma display_order_fields:
  "status_emoji (display_order w ord d) =
     map_option (\<lambda>old. animation w (config_step (getStatusConfig (status ord)))
                          (getStatusConfig (status ord))) (status_emoji d)"
  "status_title (display_order w ord d) = map_option (\<lambda>old. set_textContent (status ord)) (status_title d)"
  "order_status (display_order w ord d) = map_option (classList_remove [str ''hidden'']) (order_status d)"
  "order_product (display_order w ord d) = order_product (updateOrderDetails w ord d)"
  "order_date (display_order w ord d) = order_date (updateOrderDetails w ord d)"
  "tracking_container (display_order w ord d) = tracking_container (updateOrderDetails w ord d)"
  "tracking_number (display_order w ord d) = tracking_number (updateOrderDetails w ord d)"
  "order_details (display_order w ord d) = order_details (updateOrderDetails w ord d)"
  "status_timeline_display (display_order w ord d) = status_timeline_display d"
  by (simp_all add: display_order_def Let_def updateOrderDetails_fields)

lemma display_order_idem:
  "display_order w ord (display_order w ord d) = display_order w ord d"
proof (rule dom.equality)
  show "timeline_steps (display_order w ord (display_order w ord d)) = timeline_steps (display_order w ord d)"
    by (simp add: display_order_steps)
  show "tracking_container (display_order w ord (display_order w ord d)) =
        tracking_container (display_order w ord d)"
    by (simp add: display_order_fields updateOrderDetails_fields option.map_comp comp_def)
  show "tracking_number (display_order w ord (display_order w ord d)) =
        tracking_number (display_order w ord d)"
    by (auto simp: display_order_fields updateOrderDetails_fields)
qed (simp_all add: display_order_fields display_order_message updateOrderDetails_fields
      option.map_comp comp_def)

lemma displayOrderStatus_found:
  "order orderData = Some ord \<Longrightarrow> displayOrderStatus w orderData d = Inr (display_order w ord d)"
  by (simp add: displayOrderStatus_def)

lemma canonical_label_2: "canonical_labels ! 2 = str ''Printing''"
  by (simp add: canonical_labels_def)

lemma set_textContent_Some [simp]: "set_textContent (Some s) = TextContent s"
  by (simp add: set_textContent_def)

text \<open>
  Claim C3. Displaying a result whose status is the canonical label at position \<open>k\<close>
  succeeds, marks every stage before \<open>k\<close> completed and not active, stage \<open>k\<close> active and
  not completed, and leaves every later stage without either mark (an unmarked later stage
  keeps its class list as it was). \<open>Printing\<close> is position 2 and its message is
  \<open>Your print is being created\<close>.
\<close>

theorem display_marks_stages:
  assumes "order orderData = Some ord" "k < 8" "status ord = Some (canonical_labels ! k)"
  shows "displayOrderStatus w orderData d = Inr (display_order w ord d) \<and>
         length (timeline_steps (display_order w ord d)) = length (timeline_steps d) \<and>
         (\<forall>i<length (timeline_steps d).
            (completed (timeline_steps (display_order w ord d) ! i) \<longleftrightarrow> i < k) \<and>
            (active (timeline_steps (display_order w ord d) ! i) \<longleftrightarrow> i = k) \<and>
            (k < i \<and> \<not> completed (timeline_steps d ! i) \<and> \<not> active (timeline_steps d ! i) \<longrightarrow>
               timeline_steps (display_order w ord d) ! i = timeline_steps d ! i)) \<and>
         canonical_labels ! 2 = str ''Printing'' \<and>
         (k = 2 \<longrightarrow>
            status_message (display_order w ord d) =
              map_option (\<lambda>old. TextContent (str ''Your print is being created'')) (status_message d))"
proof -
  have idx: "getStatusIndex (config_step (getStatusConfig (status ord))) = int k"
    using assms(2,3) by (simp add: index_of_label)
  have msg: "k = 2 \<Longrightarrow> config_message (getStatusConfig (status ord)) = Some (str ''Your print is being created'')"
    using assms(3) by (simp add: canonical_label_2 printing_message)
  show ?thesis
    using assms(1) msg
    by (auto simp: displayOrderStatus_found display_order_steps idx canonical_label_2
        display_order_message step_untouched)
qed

text \<open>
  Claim C7. Displaying the same result a second time leaves the page as the first display
  left it, and every stage carries at most one mark token.
\<close>

theorem display_twice:
  assumes "order orderData = Some ord"
  shows "displayOrderStatus w orderData d = Inr (display_order w ord d) \<and>
         displayOrderStatus w orderData (display_order w ord d) = Inr (display_order w ord d) \<and>
         list_all (\<lambda>cl. length (filter is_mark cl) \<le> 1) (timeline_steps (display_order w ord d))"
  using assms
  by (auto simp: displayOrderStatus_found display_order_idem display_order_steps list_all_length
      step_marks_once)

theorem display_twice_witness:
  "order (found ''Shipped'') = Some (found_order ''Shipped'') \<and>
   displayOrderStatus site (found ''Shipped'')
     (display_order site (found_order ''Shipped'') tracking_section) =
   displayOrderStatus site (found ''Shipped'') tracking_section"
  using display_twice [of "found ''Shipped''" "found_order ''Shipped''" site tracking_section]
  by (simp add: found_def)

lemma unknown_status_not_canonical:
  "str ''Unknown Status'' \<notin> set canonical_labels"
  "str ''Unknown Status'' \<notin> set Object_prototype_properties"
  by (simp_all add: canonical_labels_def Object_prototype_properties_def)

lemma default_emoji:
  "animation_mode w = str ''emoji'' \<Longrightarrow>
   animation w st (Config DEFAULT_STATUS) = TextContent [0xD83D, 0xDC31]"
  by (simp add: animation_def DEFAULT_STATUS_def)

text \<open>
  Claim C2 as stated fails: for the status \<open>Unknown Status\<close> the stage index is not the
  sentinel \<open>-1\<close> and a stage of the timeline is marked.
\<close>

theorem unknown_status_counterexample:
  "getStatusIndex (config_step (getStatusConfig (Some (str ''Unknown Status'')))) \<noteq> - 1 \<and>
   \<not> no_stage_marked (display_order site (found_order ''Unknown Status'') tracking_section)"
  using unknown_status_default [OF unknown_status_not_canonical]
  by (auto simp: no_stage_marked_def display_order_steps found_order_def
      tracking_section_def list_all_length)

text \<open>
  Claim C2, amended. A status string that is neither a canonical label nor the name of a
  property of \<open>Object.prototype\<close> gets the default descriptor, whose step is
  \<open>received\<close>: the stage index is 0, so the timeline marks stage 0 active and no stage
  completed, and in emoji mode the animation shows the default glyph.
\<close>

theorem unknown_status_default_descriptor:
  assumes "s \<notin> set canonical_labels" "s \<notin> set Object_prototype_properties"
  shows "getStatusConfig (Some s) = Config DEFAULT_STATUS \<and>
         getStatusIndex (config_step (getStatusConfig (Some s))) = 0 \<and>
         (\<forall>i<length (timeline_steps d).
            (active (timeline_steps (updateTimeline (config_step (getStatusConfig (Some s))) d) ! i) \<longleftrightarrow> i = 0) \<and>
            \<not> completed (timeline_steps (updateTimeline (config_step (getStatusConfig (Some s))) d) ! i)) \<and>
         (animation_mode w = str ''emoji'' \<longrightarrow>
            animation w (config_step (getStatusConfig (Some s))) (getStatusConfig (Some s)) =
              TextContent [0xD83D, 0xDC31])"
  using unknown_status_default [OF assms]
  by (simp add: updateTimeline_steps default_emoji)

theorem unknown_status_default_descriptor_witness:
  "str ''Unknown Status'' \<notin> set canonical_labels \<and>
   str ''Unknown Status'' \<notin> set Object_prototype_properties \<and>
   animation_mode site = str ''emoji'' \<and>
   getStatusConfig (Some (str ''Unknown Status'')) = Config DEFAULT_STATUS \<and>
   active (timeline_steps (updateTimeline (config_step (getStatusConfig (Some (str ''Unknown Status''))))
                             tracking_section) ! 0) \<and>
   animation site (config_step (getStatusConfig (Some (str ''Unknown Status''))))
     (getStatusConfig (Some (str ''Unknown Status''))) = TextContent [0xD83D, 0xDC31]"
proof -
  have mode: "animation_mode site = str ''emoji''"
    by (simp add: animation_mode_def site_def site_config_def truthy_def)
  have first: "0 < length (timeline_steps tracking_section)"
    by (simp add: tracking_section_def)
  show ?thesis
    using unknown_status_default_descriptor [OF unknown_status_not_canonical, of tracking_section site]
      unknown_status_not_canonical mode first
    by auto
qed


section \<open>The identifier pattern\<close>

lemma regex_exact:
  "regex_test (Atom cls n (Some n) # as) s \<longleftrightarrow>
     n \<le> length s \<and> list_all (in_class cls) (take n s) \<and> regex_test as (drop n s)"
proof (induction n arbitrary: s)
  case 0
  show ?case by (cases s) simp_all
next
  case (Suc n)
  show ?case by (cases s) (auto simp: Suc)
qed

lemma in_class_upper [simp]: "in_class upper = is_upper_letter"
  by (rule ext) (simp add: upper_def is_upper_letter_def)

lemma in_class_digit [simp]: "in_class digit = is_digit"
  by (rule ext) (simp add: digit_def is_digit_def)

lemma take_one_drop: "k < length s \<Longrightarrow> take (Suc 0) (drop k s) = [s ! k]"
  by (simp add: take_Suc_conv_app_nth)

lemma order_id_regex: "regex_test orderIdPattern s = order_id_format s"
proof (cases "length s = 12")
  case True
  then show ?thesis
    by (auto simp: orderIdPattern_def literal_def regex_exact order_id_format_def take_one_drop
        numeral_3_eq_3)
next
  case False
  then show ?thesis
    by (auto simp: orderIdPattern_def literal_def regex_exact order_id_format_def)
qed

lemma order_id_examples:
  "order_id_format (str ''AA-2024-0047'')"
  "\<not> order_id_format (str ''aa-2024-0047'')"
  "\<not> order_id_format (str ''AA-24-0047'')"
  "\<not> order_id_format (str ''AA-2024-047'')"
  by (simp_all add: order_id_format_def str_def is_upper_letter_def is_digit_def)

section \<open>The search form\<close>

lemma loop_no_form_error:
  "ShowFormError m f \<notin> set (snd (fetchWithRetry_loop net url options maxRetries i))"
proof (induction net url options maxRetries i rule: fetchWithRetry_loop.induct)
  case (1 net url options maxRetries i)
  show ?case
    by (subst fetchWithRetry_loop.simps)
       (use 1 in \<open>auto split: try_result.splits prod.splits\<close>)
qed

lemma retry_no_form_error:
  "fetchWithRetry net url options maxRetries = (r, es) \<Longrightarrow> ShowFormError m f \<notin> set es"
  using loop_no_form_error [of m f net url options maxRetries 0] by (simp add: fetchWithRetry_def)

lemma fetchOrderStatus_no_form_error:
  "ShowFormError m f \<notin> set (snd (fetchOrderStatus w net oid email))"
  by (auto simp: fetchOrderStatus_def split: sum.splits prod.splits dest: retry_no_form_error)

lemma track_order_no_form_error:
  "ShowFormError m f \<notin> set (events (track_order w net oid email d))"
  using fetchOrderStatus_no_form_error [of m f w net oid email]
  by (auto simp: track_order_def split: sum.splits prod.splits)

lemma search_missing:
  "order_id form = Some v \<Longrightarrow> trim v = [] \<Longrightarrow>
   handleOrderSearch w net form d = rejected_with missing_identifier d"
  by (simp add: handleOrderSearch_def rejected_with_def missing_identifier_def)

lemma search_bad_format:
  "order_id form = Some v \<Longrightarrow> trim v \<noteq> [] \<Longrightarrow> \<not> order_id_format (trim v) \<Longrightarrow>
   handleOrderSearch w net form d = rejected_with bad_format d"
  by (simp add: handleOrderSearch_def rejected_with_def bad_format_def order_id_regex)

lemma order_id_format_nonempty: "order_id_format s \<Longrightarrow> s \<noteq> []"
  by (auto simp: order_id_format_def)

lemma search_accepted:
  assumes "order_id form = Some v" "order_id_format (trim v)"
  shows "missing_identifier \<notin> set (events (handleOrderSearch w net form d)) \<and>
         bad_format \<notin> set (events (handleOrderSearch w net form d))"
  using assms order_id_format_nonempty [OF assms(2)]
    track_order_no_form_error [of _ OrderIdInput w net "trim v" _ d]
  by (auto simp: handleOrderSearch_def order_id_regex Let_def missing_identifier_def bad_format_def
      split: option.splits)

text \<open>
  Claim C6. The pattern of the form accepts exactly the strings of the identifier format
  (two uppercase letters, hyphen, four digits, hyphen, four digits). A submission whose
  trimmed identifier is empty is rejected with the missing-identifier error; one whose
  trimmed identifier is not of the format is rejected with the bad-format error; both
  rejections issue no request and leave the tracking section as it was. A trimmed
  identifier of the format raises neither error. \<open>AA-2024-0047\<close> is of the format;
  \<open>aa-2024-0047\<close>, \<open>AA-24-0047\<close> and \<open>AA-2024-047\<close> are not.
\<close>

theorem identifier_validation:
  assumes "order_id form = Some v"
  shows "regex_test orderIdPattern s = order_id_format s \<and>
         (trim v = [] \<longrightarrow> handleOrderSearch w net form d = rejected_with missing_identifier d) \<and>
         (trim v \<noteq> [] \<and> \<not> order_id_format (trim v) \<longrightarrow>
            handleOrderSearch w net form d = rejected_with bad_format d) \<and>
         (order_id_format (trim v) \<longrightarrow>
            missing_identifier \<notin> set (events (handleOrderSearch w net form d)) \<and>
            bad_format \<notin> set (events (handleOrderSearch w net form d))) \<and>
         attempts (events (rejected_with missing_identifier d)) = 0 \<and>
         attempts (events (rejected_with bad_format d)) = 0 \<and>
         page (rejected_with bad_format d) = d \<and>
         order_id_format (str ''AA-2024-0047'') \<and> \<not> order_id_format (str ''aa-2024-0047'') \<and>
         \<not> order_id_format (str ''AA-24-0047'') \<and> \<not> order_id_format (str ''AA-2024-047'')"
  using assms search_accepted [OF assms, of w net d]
  by (simp add: order_id_regex search_missing search_bad_format order_id_examples
      rejected_with_def attempts_def missing_identifier_def bad_format_def)

lemma trim_lower: "trim (str ''aa-2024-0047'') = str ''aa-2024-0047''"
  by (simp add: trim_def str_def is_white_space_def)

theorem identifier_validation_witness:
  "order_id \<lparr>order_id = Some (str ''aa-2024-0047''), order_email = None\<rparr> = Some (str ''aa-2024-0047'') \<and>
   trim (str ''aa-2024-0047'') \<noteq> [] \<and> \<not> order_id_format (trim (str ''aa-2024-0047'')) \<and>
   handleOrderSearch site not_found_net \<lparr>order_id = Some (str ''aa-2024-0047''), order_email = None\<rparr>
     tracking_section =
   \<lparr>events = [ClearAllFormErrors,
              ShowFormError (str ''Invalid order ID format. Expected: AA-2024-0047'') OrderIdInput],
    page = tracking_section, uncaught = None\<rparr>"
  using identifier_validation [of "\<lparr>order_id = Some (str ''aa-2024-0047''), order_email = None\<rparr>"
      "str ''aa-2024-0047''" "[]" site not_found_net tracking_section]
  by (simp add: trim_lower rejected_with_def bad_format_def)

section \<open>The lookup\<close>

lemma prepend_Inr [simp]: "prepend p (Inr s) = Inr (p @ s)"
  by (simp add: prepend_def)

lemma encode_unreserved: "list_all uri_unreserved s \<Longrightarrow> encodeURIComponent s = Inr s"
  by (induction s rule: encodeURIComponent.induct) simp_all

lemma example_id_unreserved: "list_all uri_unreserved (str ''AA-2024-0047'')"
  by (simp add: str_def uri_unreserved_def)

lemma example_id_trim: "trim (str ''AA-2024-0047'') = str ''AA-2024-0047''"
  by (simp add: trim_def str_def is_white_space_def)


lemma API_ENDPOINT_site: "API_ENDPOINT site = str ''https://YOUR_WORKER.workers.dev/orders''"
  by (simp add: API_ENDPOINT_def site_def site_config_def truthy_def)

lemma build_url_plain:
  "encodeURIComponent oid = Inr enc \<Longrightarrow>
   build_url w oid [] = Inr (API_ENDPOINT w @ str ''?orderId='' @ enc)"
  by (simp add: build_url_def)

lemma fetchOrderStatus_retry_failure:
  "AdditiveArtisanAPI w \<Longrightarrow> build_url w oid email = Inr url \<Longrightarrow>
   fetchWithRetry net url () 3 = (Inl e, es) \<Longrightarrow> fetchOrderStatus w net oid email = (Inl e, es)"
  by (simp add: fetchOrderStatus_def)

lemma fetchOrderStatus_exhausted:
  assumes "AdditiveArtisanAPI w" "build_url w oid email = Inr url" "\<forall>j<3. attempt_fails (net j url)"
    "retry_try net url 3 2 = Thrown e"
  shows "fetchOrderStatus w net oid email = (Inl e, backoff_trace url 0 2)"
  using assms(1,2) retry_exhausted [OF assms(3,4), of "()"]
  by (rule fetchOrderStatus_retry_failure)

lemma track_order_failure:
  "fetchOrderStatus w net oid email = (Inl e, es) \<Longrightarrow>
   track_order w net oid email d =
     \<lparr>events = es, page = displayError w (error_message_or_default e) (showLoading d), uncaught = None\<rparr>"
  by (simp add: track_order_def)


lemma handleOrderSearch_valid:
  assumes "order_id form = Some v" "order_email form = None" "order_id_format (trim v)"
    "AdditiveArtisanTracker w"
  shows "handleOrderSearch w net form d =
           (track_order w net (trim v) [] d)
             \<lparr>events := ClearAllFormErrors # events (track_order w net (trim v) [] d)\<rparr>"
  using assms order_id_format_nonempty [OF assms(3)]
  by (simp add: handleOrderSearch_def order_id_regex Let_def)

lemma string_of_nat_404: "string_of_nat 404 = str ''404''"
  by (simp add: string_of_nat.simps [of 404] string_of_nat.simps [of 40] string_of_nat.simps [of 4]
      str_def)

lemma not_found_net_fails: "attempt_fails (not_found_net j url)"
  by (simp add: not_found_net_def answer_def attempt_fails_def ok_def)

lemma not_found_net_thrown:
  "retry_try not_found_net url 3 2 = Thrown (JsError (str ''Error'') (str ''HTTP 404: Not Found''))"
  by (simp add: retry_try_def fetchWithTimeout_def fetch_with_signal_def not_found_net_def
      answer_def ok_def http_error_def string_of_nat_404 str_append [symmetric])

lemma http_404_message:
  "error_message_or_default (JsError (str ''Error'') (str ''HTTP 404: Not Found'')) = str ''HTTP 404: Not Found''"
  by (simp add: error_message_or_default_def)

lemma escape_http_404: "escapeHTML (str ''HTTP 404: Not Found'') = str ''HTTP 404: Not Found''"
  by (simp add: escapeHTML_def str_def serialize_text_unit_def)

lemma displayError_fields:
  "status_message (displayError w msg d) =
     map_option (\<lambda>old. InnerHTML (error_markup (if AdditiveArtisanUtils w then escapeHTML msg
                                                   else concat (map replace_entity msg))))
       (status_message d)"
  "status_timeline_display (displayError w msg d) = map_option (\<lambda>old. str ''none'') (status_timeline_display d)"
  "timeline_steps (displayError w msg d) = timeline_steps d"
  by (simp_all add: displayError_def Let_def)

lemma showLoading_fields:
  "status_message (showLoading d) =
     map_option (\<lambda>old. TextContent (str ''Looking up your order...'')) (status_message d)"
  "status_timeline_display (showLoading d) = map_option (\<lambda>old. str ''flex'') (status_timeline_display d)"
  by (simp_all add: showLoading_def Let_def)

lemma site_modules:
  "AdditiveArtisanAPI site" "AdditiveArtisanTracker site" "AdditiveArtisanUtils site"
  "AdditiveArtisanAPI unconfigured_site" "AdditiveArtisanTracker unconfigured_site"
  "AdditiveArtisanUtils unconfigured_site" "no_endpoint unconfigured_site"
  by (simp_all add: site_def unconfigured_site_def no_endpoint_def)

lemma example_form_fields:
  "order_id example_form = Some (str ''AA-2024-0047'')" "order_email example_form = None"
  by (simp_all add: example_form_def)

lemma track_not_found:
  assumes "AdditiveArtisanAPI w"
  shows "track_order w not_found_net (str ''AA-2024-0047'') [] d =
           \<lparr>events = backoff_trace (API_ENDPOINT w @ str ''?orderId=AA-2024-0047'') 0 2,
            page = displayError w (str ''HTTP 404: Not Found'') (showLoading d), uncaught = None\<rparr>"
proof -
  have url: "build_url w (str ''AA-2024-0047'') [] = Inr (API_ENDPOINT w @ str ''?orderId=AA-2024-0047'')"
    using build_url_plain [OF encode_unreserved [OF example_id_unreserved]]
    by (simp add: str_append [symmetric])
  have "fetchOrderStatus w not_found_net (str ''AA-2024-0047'') [] =
          (Inl (JsError (str ''Error'') (str ''HTTP 404: Not Found'')),
           backoff_trace (API_ENDPOINT w @ str ''?orderId=AA-2024-0047'') 0 2)"
    using fetchOrderStatus_exhausted [where w = w and net = not_found_net, OF assms url _
        not_found_net_thrown]
    by (simp add: not_found_net_fails)
  then show ?thesis
    by (simp add: track_order_failure http_404_message)
qed

lemma search_not_found:
  assumes "AdditiveArtisanAPI w" "AdditiveArtisanTracker w"
  shows "handleOrderSearch w not_found_net example_form d =
           \<lparr>events = ClearAllFormErrors # backoff_trace (API_ENDPOINT w @ str ''?orderId=AA-2024-0047'') 0 2,
            page = displayError w (str ''HTTP 404: Not Found'') (showLoading d), uncaught = None\<rparr>"
  using handleOrderSearch_valid [OF example_form_fields, of w not_found_net d] assms
  by (simp add: example_id_trim order_id_examples track_not_found)

lemma backoff_events:
  "ClearAllFormErrors # backoff_trace url 0 2 =
     [ClearAllFormErrors, Fetch url 10000, Sleep 1000, Fetch url 10000, Sleep 2000, Fetch url 10000]"
  by (simp add: backoff_trace_2)

lemma not_found_answer:
  "settles (not_found_net j url) =
     Inr \<lparr>resp_status = 404, resp_statusText = str ''Not Found'', resp_json = Inr not_found\<rparr>"
  by (simp add: not_found_net_def answer_def)

lemma error_markup_inject [simp]: "error_markup a = error_markup b \<longleftrightarrow> a = b"
  by (simp add: error_markup_def)

lemma escape_server_message:
  "escapeHTML (str ''Order not found or email doesn'' @ [39] @ str ''t match'') \<noteq> str ''HTTP 404: Not Found''"
  by (simp add: escapeHTML_def str_def serialize_text_unit_def)

text \<open>
  Claim C4 at the documented not-found answer. The worker answers every attempt with
  status 404 and the envelope \<open>{success: false, error: "Order not found or email doesn't
  match"}\<close>. With the helper module loaded the lookup makes three requests and fails with
  the error of \<open>fetchWithRetry\<close>; the body is never read. The page ends with the timeline
  hidden and the message \<open>HTTP 404: Not Found\<close>, not the string the server supplied.
\<close>

theorem not_found_shows_http_status:
  "events (handleOrderSearch site not_found_net example_form tracking_section) =
     [ClearAllFormErrors,
      Fetch (str ''https://YOUR_WORKER.workers.dev/orders?orderId=AA-2024-0047'') 10000, Sleep 1000,
      Fetch (str ''https://YOUR_WORKER.workers.dev/orders?orderId=AA-2024-0047'') 10000, Sleep 2000,
      Fetch (str ''https://YOUR_WORKER.workers.dev/orders?orderId=AA-2024-0047'') 10000] \<and>
   settles (not_found_net 2 (str ''https://YOUR_WORKER.workers.dev/orders?orderId=AA-2024-0047'')) =
     Inr \<lparr>resp_status = 404, resp_statusText = str ''Not Found'', resp_json = Inr not_found\<rparr> \<and>
   error not_found = Some (str ''Order not found or email doesn'' @ [39] @ str ''t match'') \<and>
   status_message (page (handleOrderSearch site not_found_net example_form tracking_section)) =
     Some (InnerHTML (error_markup (str ''HTTP 404: Not Found''))) \<and>
   status_message (page (handleOrderSearch site not_found_net example_form tracking_section)) \<noteq>
     Some (InnerHTML (error_markup (escapeHTML (str ''Order not found or email doesn'' @ [39] @ str ''t match'')))) \<and>
   status_timeline_display (page (handleOrderSearch site not_found_net example_form tracking_section)) =
     Some (str ''none'')"
proof -
  have shown: "status_message (showLoading tracking_section) \<noteq> None"
    "status_timeline_display (showLoading tracking_section) \<noteq> None"
    by (simp_all add: showLoading_fields tracking_section_def)
  have run: "handleOrderSearch site not_found_net example_form tracking_section =
      \<lparr>events = ClearAllFormErrors #
                 backoff_trace (str ''https://YOUR_WORKER.workers.dev/orders?orderId=AA-2024-0047'') 0 2,
       page = displayError site (str ''HTTP 404: Not Found'') (showLoading tracking_section),
       uncaught = None\<rparr>"
    using search_not_found [OF site_modules(1,2), of tracking_section]
    by (simp add: API_ENDPOINT_site str_append [symmetric])
  show ?thesis
    using shown escape_server_message
    by (auto simp: run backoff_events not_found_answer not_found_def displayError_fields
        site_modules escape_http_404)
qed

theorem not_found_shows_http_status_witness:
  "attempts (events (handleOrderSearch site not_found_net example_form tracking_section)) = 3"
  using not_found_shows_http_status by (simp add: attempts_def)








section \<open>End to end\<close>

lemma fetchOrderStatus_first_answer:
  assumes "AdditiveArtisanAPI w" "build_url w oid email = Inr url" "attempt_succeeds (net 0 url) r"
  shows "fetchOrderStatus w net oid email = (interpret_response w (Some r), [Fetch url 10000])"
  using assms loop_success [of 0 3 net url r "()"]
  by (simp add: fetchOrderStatus_def fetchWithRetry_def)

lemma fetchOrderStatus_plain:
  assumes "\<not> AdditiveArtisanAPI w" "build_url w oid email = Inr url" "settles (net 0 url) = Inr r"
  shows "fetchOrderStatus w net oid email = (interpret_response w (Some r), [FetchPlain url])"
  using assms by (simp add: fetchOrderStatus_def)

lemma interpret_failure:
  assumes "resp_json r = Inr data" "\<not> ok r \<or> \<not> success data"
  shows "interpret_response w (Some r) =
           Inl (JsError (str ''Error'')
                  (if truthy (error data) then the (error data) else str ''Failed to fetch order status''))"
  using assms by (auto simp: interpret_response_def)

lemma interpret_found:
  "resp_json r = Inr data \<Longrightarrow> ok r \<Longrightarrow> success data \<Longrightarrow> interpret_response w (Some r) = Inr data"
  by (simp add: interpret_response_def)

text \<open>
  Where the lookup does carry the server's message: a 2xx answer with \<open>success = false\<close>
  through the retry helper, and any answer with a JSON body through the bare \<open>fetch\<close>.
\<close>

lemma lookup_failure_message:
  assumes "build_url w oid email = Inr url" "resp_json r = Inr data" "\<not> ok r \<or> \<not> success data"
    and "(AdditiveArtisanAPI w \<and> attempt_succeeds (net 0 url) r) \<or>
         (\<not> AdditiveArtisanAPI w \<and> settles (net 0 url) = Inr r)"
  shows "fst (fetchOrderStatus w net oid email) =
           Inl (JsError (str ''Error'')
                  (if truthy (error data) then the (error data) else str ''Failed to fetch order status''))"
  using assms(4)
proof
  assume "AdditiveArtisanAPI w \<and> attempt_succeeds (net 0 url) r"
  then show ?thesis
    using fetchOrderStatus_first_answer [of w oid email url net r] assms(1)
      interpret_failure [OF assms(2,3), of w]
    by simp
next
  assume "\<not> AdditiveArtisanAPI w \<and> settles (net 0 url) = Inr r"
  then show ?thesis
    using fetchOrderStatus_plain [of w oid email url net r] assms(1)
      interpret_failure [OF assms(2,3), of w]
    by simp
qed

lemma track_order_found:
  "fetchOrderStatus w net oid email = (Inr data, es) \<Longrightarrow> order data = Some ord \<Longrightarrow>
   track_order w net oid email d = \<lparr>events = es, page = display_order w ord (showLoading d), uncaught = None\<rparr>"
  by (simp add: track_order_def displayOrderStatus_def)

lemma found_net_succeeds:
  "attempt_succeeds (found_net 0 url)
     \<lparr>resp_status = 200, resp_statusText = str ''OK'', resp_json = Inr (found ''Printing'')\<rparr>"
  by (simp add: found_net_def answer_def attempt_succeeds_def ok_def)

lemma search_found:
  "handleOrderSearch site found_net example_form d =
     \<lparr>events = [ClearAllFormErrors,
                Fetch (str ''https://YOUR_WORKER.workers.dev/orders?orderId=AA-2024-0047'') 10000],
      page = display_order site (found_order ''Printing'') (showLoading d), uncaught = None\<rparr>"
proof -
  have url: "build_url site (str ''AA-2024-0047'') [] =
               Inr (str ''https://YOUR_WORKER.workers.dev/orders?orderId=AA-2024-0047'')"
    using build_url_plain [OF encode_unreserved [OF example_id_unreserved], of site]
    by (simp add: API_ENDPOINT_site str_append [symmetric])
  have "interpret_response site
          (Some \<lparr>resp_status = 200, resp_statusText = str ''OK'', resp_json = Inr (found ''Printing'')\<rparr>) =
        Inr (found ''Printing'')"
    by (simp add: interpret_found ok_def found_def)
  then have "fetchOrderStatus site found_net (str ''AA-2024-0047'') [] =
          (Inr (found ''Printing''),
           [Fetch (str ''https://YOUR_WORKER.workers.dev/orders?orderId=AA-2024-0047'') 10000])"
    using fetchOrderStatus_first_answer [where net = found_net, OF site_modules(1) url
        found_net_succeeds [of "str ''https://YOUR_WORKER.workers.dev/orders?orderId=AA-2024-0047''"]]
    by simp
  then have "track_order site found_net (str ''AA-2024-0047'') [] d =
      \<lparr>events = [Fetch (str ''https://YOUR_WORKER.workers.dev/orders?orderId=AA-2024-0047'') 10000],
       page = display_order site (found_order ''Printing'') (showLoading d), uncaught = None\<rparr>"
    by (rule track_order_found) (simp add: found_def)
  then show ?thesis
    using handleOrderSearch_valid [OF example_form_fields, of site found_net d]
    by (simp add: example_id_trim order_id_examples site_modules)
qed

lemma showLoading_steps:
  "timeline_steps (showLoading d) = map (classList_remove [str ''completed'', str ''active'']) (timeline_steps d)"
  by (simp add: showLoading_def Let_def)

theorem display_marks_stages_witness:
  "order (found ''Printing'') = Some (found_order ''Printing'') \<and>
   status (found_order ''Printing'') = Some (canonical_labels ! 2) \<and>
   page (handleOrderSearch site found_net example_form tracking_section) =
     display_order site (found_order ''Printing'') (showLoading tracking_section) \<and>
   displayOrderStatus site (found ''Printing'') (showLoading tracking_section) =
     Inr (display_order site (found_order ''Printing'') (showLoading tracking_section)) \<and>
   map (\<lambda>cl. (completed cl, active cl))
     (timeline_steps (display_order site (found_order ''Printing'') (showLoading tracking_section))) =
     [(True, False), (True, False), (False, True), (False, False), (False, False), (False, False),
      (False, False), (False, False)] \<and>
   status_message (display_order site (found_order ''Printing'') (showLoading tracking_section)) =
     Some (TextContent (str ''Your print is being created''))"
proof -
  have eight: "replicate 8 x = [x, x, x, x, x, x, x, x]" for x :: classList
    by (simp add: eval_nat_numeral)
  have steps: "length (timeline_steps (showLoading tracking_section)) = 8"
    by (simp add: showLoading_steps tracking_section_def)
  have label: "status (found_order ''Printing'') = Some (canonical_labels ! 2)"
    by (simp add: found_order_def empty_order_def canonical_labels_def)
  have message: "status_message (showLoading tracking_section) \<noteq> None"
    by (simp add: showLoading_fields tracking_section_def)
  note shown = display_marks_stages [of "found ''Printing''" "found_order ''Printing''" 2 site
      "showLoading tracking_section", unfolded steps]
  have marks: "map (\<lambda>cl. (completed cl, active cl))
     (timeline_steps (display_order site (found_order ''Printing'') (showLoading tracking_section))) =
     [(True, False), (True, False), (False, True), (False, False), (False, False), (False, False),
      (False, False), (False, False)]"
    by (simp add: display_order_steps found_order_def empty_order_def step_of_label index_of_step
        mark_steps_def showLoading_steps tracking_section_def eight)
  show ?thesis
    using shown label message marks by (auto simp: found_def search_found)
qed

end
